theory Spec2Isabelle
  imports Main
begin

section \<open>Python strings\<close>

text \<open>
  A Python \<open>str\<close> is modelled as a \<open>string\<close>; one \<open>char\<close> stands for one code point
  below 256, so \<open>length\<close> is Python's \<open>len\<close> on such text. A \<open>bytes\<close> value is a list
  of \<open>char\<close> as well, one per byte.
\<close>

type_synonym bytes = "char list"

text \<open>\<open>s.startswith(p)\<close>\<close>

fun startswith :: "string \<Rightarrow> string \<Rightarrow> bool" where
  "startswith s [] = True"
| "startswith [] (p # ps) = False"
| "startswith (c # cs) (p # ps) = (c = p \<and> startswith cs ps)"

text \<open>\<open>sub in s\<close> for two strings: \<open>sub\<close> occurs in \<open>s\<close> as a contiguous run.\<close>

fun py_in :: "string \<Rightarrow> string \<Rightarrow> bool" where
  "py_in sub [] = (sub = [])"
| "py_in sub (c # cs) = (startswith (c # cs) sub \<or> py_in sub cs)"

text \<open>\<open>' '.join(parts)\<close>\<close>

fun join_sp :: "string list \<Rightarrow> string" where
  "join_sp [] = []"
| "join_sp [x] = x"
| "join_sp (x # y # zs) = x @ CHR '' '' # join_sp (y # zs)"

text \<open>\<open>s.split(d)\<close> for a one-character separator: never empty, one more part than separators.\<close>

fun split_on :: "char \<Rightarrow> string \<Rightarrow> string list" where
  "split_on d [] = [[]]"
| "split_on d (c # cs) =
     (if c = d then [] # split_on d cs
      else (let r = split_on d cs in (c # hd r) # tl r))"

text \<open>
  \<open>str.isspace\<close> on one code point below 256: tab, line feed, vertical tab, form feed,
  carriage return, the four separators 28 to 31, space, next line (133) and no-break
  space (160).
\<close>

definition isspace_char :: "char \<Rightarrow> bool" where
  "isspace_char c =
     (let n = of_char c :: nat
      in (9 \<le> n \<and> n \<le> 13) \<or> (28 \<le> n \<and> n \<le> 32) \<or> n = 133 \<or> n = 160)"

text \<open>\<open>s.strip()\<close>\<close>

definition strip :: "string \<Rightarrow> string" where
  "strip s = rev (dropWhile isspace_char (rev (dropWhile isspace_char s)))"

text \<open>
  \<open>str.isdigit\<close> on one code point below 256: the ten ASCII digits and the superscripts
  two, three (178, 179) and one (185).
\<close>

definition isdigit_char :: "char \<Rightarrow> bool" where
  "isdigit_char c =
     (let n = of_char c :: nat
      in (48 \<le> n \<and> n \<le> 57) \<or> n = 178 \<or> n = 179 \<or> n = 185)"

text \<open>\<open>s.isdigit()\<close>: false on the empty string.\<close>

definition isdigit :: "string \<Rightarrow> bool" where
  "isdigit s = (s \<noteq> [] \<and> list_all isdigit_char s)"

section \<open>Exceptions and JSON values\<close>

text \<open>An exception value: \<open>type(e).__name__\<close> and \<open>str(e)\<close>.\<close>

record exn =
  exn_type :: string
  exn_str :: string

definition raise_exn :: "string \<Rightarrow> string \<Rightarrow> exn" where
  "raise_exn t m = \<lparr>exn_type = t, exn_str = m\<rparr>"

text \<open>A name between single quotes, as the interpreter's messages write a type.\<close>

definition quoted :: "string \<Rightarrow> string" where
  "quoted s = CHR 0x27 # s @ [CHR 0x27]"

text \<open>
  What \<open>request.get_json()\<close> returns and what \<open>jsonify\<close> takes. A dict is an
  association list in insertion order, looked up by its first match.
\<close>

datatype json =
    JNull
  | JBool bool
  | JNum int
  | JStr string
  | JArr "json list"
  | JObj "(string \<times> json) list"

text \<open>Python truthiness, as \<open>not data\<close> reads it.\<close>

fun truthy :: "json \<Rightarrow> bool" where
  "truthy JNull = False"
| "truthy (JBool b) = b"
| "truthy (JNum n) = (n \<noteq> 0)"
| "truthy (JStr s) = (s \<noteq> [])"
| "truthy (JArr xs) = (xs \<noteq> [])"
| "truthy (JObj kvs) = (kvs \<noteq> [])"

text \<open>
  \<open>'url' in data\<close>: a key test on a dict, an element test on a list, a substring test on
  a string, and a TypeError on anything that is not a container.
\<close>

fun contains_key :: "string \<Rightarrow> json \<Rightarrow> exn + bool" where
  "contains_key k (JObj kvs) = Inr (k \<in> set (map fst kvs))"
| "contains_key k (JArr xs) = Inr (JStr k \<in> set xs)"
| "contains_key k (JStr s) = Inr (py_in k s)"
| "contains_key k (JNum n) =
     Inl (raise_exn ''TypeError'' (''argument of type '' @ quoted ''int'' @ '' is not iterable''))"
| "contains_key k (JBool b) =
     Inl (raise_exn ''TypeError'' (''argument of type '' @ quoted ''bool'' @ '' is not iterable''))"
| "contains_key k JNull =
     Inl (raise_exn ''TypeError'' (''argument of type '' @ quoted ''NoneType'' @ '' is not iterable''))"

text \<open>\<open>data['url']\<close>: defined on a dict that has the key, an exception everywhere else.\<close>

fun getitem :: "json \<Rightarrow> string \<Rightarrow> exn + json" where
  "getitem (JObj kvs) k =
     (case map_of kvs k of
        Some v \<Rightarrow> Inr v
      | None \<Rightarrow> Inl (raise_exn ''KeyError'' k))"
| "getitem (JArr xs) k =
     Inl (raise_exn ''TypeError'' ''list indices must be integers or slices, not str'')"
| "getitem (JStr s) k =
     Inl (raise_exn ''TypeError'' (''string indices must be integers, not '' @ quoted ''str''))"
| "getitem (JNum n) k =
     Inl (raise_exn ''TypeError'' (quoted ''int'' @ '' object is not subscriptable''))"
| "getitem (JBool b) k =
     Inl (raise_exn ''TypeError'' (quoted ''bool'' @ '' object is not subscriptable''))"
| "getitem JNull k =
     Inl (raise_exn ''TypeError'' (quoted ''NoneType'' @ '' object is not subscriptable''))"

section \<open>The REST server (apps/markitdown/server.py)\<close>

text \<open>
  What a converter call returns. \<open>text_content\<close> is \<open>None\<close> when the object has no such
  attribute, and then \<open>str(result)\<close> is used; \<open>title\<close> is \<open>None\<close> when the attribute is
  missing or is Python's \<open>None\<close>.
\<close>

record conv_result =
  text_content :: "string option"
  str_repr :: string
  title :: "string option"

text \<open>
  The shared \<open>md_converter\<close>: both entry points either return a result or raise.
\<close>

record converter =
  convert_stream :: "bytes \<Rightarrow> exn + conv_result"
  convert :: "json \<Rightarrow> exn + conv_result"

text \<open>One uploaded part of a multipart form: \<open>file.filename\<close> and \<open>file.read()\<close>.\<close>

record upload =
  up_filename :: "string option"
  up_content :: bytes

text \<open>
  The request as the handlers read it: \<open>request.files\<close>, \<open>request.data\<close>,
  \<open>request.headers\<close> and the outcome of \<open>request.get_json()\<close>, which the framework
  either returns or raises.
\<close>

record request =
  req_files :: "string \<rightharpoonup> upload"
  req_data :: bytes
  req_headers :: "string \<rightharpoonup> string"
  req_get_json :: "exn + json"

record response =
  status :: nat
  body :: json

text \<open>
  A handler's outcome: the response, and the arguments of every converter call it made,
  in order.
\<close>

record 'a handled =
  resp :: response
  calls :: "'a list"

text \<open>\<open>result.text_content if hasattr(result, 'text_content') else str(result)\<close>\<close>

definition markdown_of :: "conv_result \<Rightarrow> string" where
  "markdown_of r = (case text_content r of Some t \<Rightarrow> t | None \<Rightarrow> str_repr r)"

text \<open>\<open>if hasattr(result, 'title') and result.title: metadata['title'] = result.title\<close>\<close>

definition title_entry :: "conv_result \<Rightarrow> (string \<times> json) list" where
  "title_entry r =
     (case title r of
        Some t \<Rightarrow> (if t \<noteq> [] then [(''title'', JStr t)] else [])
      | None \<Rightarrow> [])"

definition error_body :: "string \<Rightarrow> exn \<Rightarrow> json" where
  "error_body what e =
     JObj [(''error'', JStr what),
           (''message'', JStr (exn_str e)),
           (''type'', JStr (exn_type e))]"

text \<open>The file of a \<open>/convert\<close> request: its name and its bytes, or none.\<close>

definition get_file :: "request \<Rightarrow> (string \<times> bytes) option" where
  "get_file req =
     (case req_files req ''file'' of
        Some file \<Rightarrow>
          Some ((case up_filename file of
                   Some n \<Rightarrow> (if n \<noteq> [] then n else ''document'')
                 | None \<Rightarrow> ''document''),
                up_content file)
      | None \<Rightarrow>
          (if req_data req \<noteq> [] then
             Some ((case req_headers req ''X-Filename'' of
                      Some n \<Rightarrow> n
                    | None \<Rightarrow> ''document''),
                   req_data req)
           else None))"

text \<open>\<open>POST /convert\<close>\<close>

definition convert_to_markdown :: "converter \<Rightarrow> request \<Rightarrow> bytes handled" where
  "convert_to_markdown md_converter req =
     (case get_file req of
        None \<Rightarrow>
          \<lparr>resp = \<lparr>status = 400,
                    body = JObj [(''error'', JStr ''No file provided''),
                                 (''message'',
                                  JStr ''Send file via multipart/form-data or raw body'')]\<rparr>,
           calls = []\<rparr>
      | Some (filename, file_content) \<Rightarrow>
          (case convert_stream md_converter file_content of
             Inl e \<Rightarrow>
               \<lparr>resp = \<lparr>status = 500, body = error_body ''Conversion failed'' e\<rparr>,
                calls = [file_content]\<rparr>
           | Inr result \<Rightarrow>
               (let markdown_text = markdown_of result;
                    metadata =
                      [(''filename'', JStr filename),
                       (''size_bytes'', JNum (int (length file_content))),
                       (''markdown_length'', JNum (int (length markdown_text)))]
                      @ title_entry result
                in \<lparr>resp = \<lparr>status = 200,
                             body = JObj [(''markdown'', JStr markdown_text),
                                          (''metadata'', JObj metadata)]\<rparr>,
                    calls = [file_content]\<rparr>)))"

text \<open>
  \<open>POST /convert/url\<close>. Everything from \<open>request.get_json()\<close> on is inside the
  handler's \<open>try\<close>, so each exception, whoever raises it, ends in the same 500 response.
\<close>

definition url_failed :: "exn \<Rightarrow> json list \<Rightarrow> json handled" where
  "url_failed e cs =
     \<lparr>resp = \<lparr>status = 500, body = error_body ''URL conversion failed'' e\<rparr>,
      calls = cs\<rparr>"

definition no_url :: "json handled" where
  "no_url =
     \<lparr>resp = \<lparr>status = 400,
               body = JObj [(''error'', JStr ''No URL provided''),
                            (''message'',
                             JStr (''Send JSON with '' @ [CHR 0x22] @ ''url''
                                   @ [CHR 0x22] @ '' field''))]\<rparr>,
      calls = []\<rparr>"

definition convert_url_to_markdown :: "converter \<Rightarrow> request \<Rightarrow> json handled" where
  "convert_url_to_markdown md_converter req =
     (case req_get_json req of
        Inl e \<Rightarrow> url_failed e []
      | Inr data \<Rightarrow>
          (if \<not> truthy data then no_url
           else
             (case contains_key ''url'' data of
                Inl e \<Rightarrow> url_failed e []
              | Inr False \<Rightarrow> no_url
              | Inr True \<Rightarrow>
                  (case getitem data ''url'' of
                     Inl e \<Rightarrow> url_failed e []
                   | Inr url \<Rightarrow>
                       (case convert md_converter url of
                          Inl e \<Rightarrow> url_failed e [url]
                        | Inr result \<Rightarrow>
                            (let markdown_text = markdown_of result;
                                 metadata =
                                   [(''url'', url),
                                    (''markdown_length'',
                                     JNum (int (length markdown_text)))]
                                   @ title_entry result
                             in \<lparr>resp = \<lparr>status = 200,
                                          body = JObj [(''markdown'', JStr markdown_text),
                                                       (''metadata'', JObj metadata)]\<rparr>,
                                 calls = [url]\<rparr>))))))"

section \<open>Subtitle cleaning (test_ytdlp_poc.py, test_ytdlp_advanced.py)\<close>

text \<open>
  The filter of \<open>extract_transcript_vtt\<close> and of \<open>_run_command\<close>:
  \<open>line and not line.startswith('WEBVTT') and '-->' not in line and not line.strip().isdigit()\<close>
\<close>

definition keep_vtt :: "string \<Rightarrow> bool" where
  "keep_vtt line =
     (line \<noteq> [] \<and> \<not> startswith line ''WEBVTT'' \<and> \<not> py_in ''-->'' line
      \<and> \<not> isdigit (strip line))"

text \<open>
  The filter of \<open>extract_transcript_srt\<close>:
  \<open>line and not line.strip().isdigit() and '-->' not in line\<close>
\<close>

definition keep_srt :: "string \<Rightarrow> bool" where
  "keep_srt line = (line \<noteq> [] \<and> \<not> isdigit (strip line) \<and> \<not> py_in ''-->'' line)"

text \<open>\<open>' '.join([line for line in content.split('\n') if ...])\<close>\<close>

definition clean_vtt :: "string \<Rightarrow> string" where
  "clean_vtt content = join_sp (filter keep_vtt (split_on CHR 0x0A content))"

definition clean_srt :: "string \<Rightarrow> string" where
  "clean_srt content = join_sp (filter keep_srt (split_on CHR 0x0A content))"

section \<open>The external tool (test_ytdlp_advanced.py)\<close>

text \<open>What \<open>subprocess.run(..., capture_output=True, text=True)\<close> returns.\<close>

record proc =
  returncode :: int
  stdout :: string
  stderr :: string

text \<open>
  The three dictionaries \<open>_run_command\<close> returns, one constructor for each set of keys:
  the success (strategy, file, text, length, stdout, stderr), the missing file (strategy,
  error, stdout, stderr, rate_limited) and the exception (strategy, error).
\<close>

datatype run_result =
    RunSuccess string string string nat string string
  | RunFailed string string string string bool
  | RunError string string

text \<open>\<open>result["success"]\<close> and \<open>result.get("rate_limited", False)\<close>\<close>

fun success :: "run_result \<Rightarrow> bool" where
  "success (RunSuccess s f t n out err) = True"
| "success (RunFailed s e out err rl) = False"
| "success (RunError s e) = False"

fun rate_limited :: "run_result \<Rightarrow> bool" where
  "rate_limited (RunSuccess s f t n out err) = False"
| "rate_limited (RunFailed s e out err rl) = rl"
| "rate_limited (RunError s e) = False"

text \<open>
  \<open>_run_command\<close>. Its surroundings are arguments: what \<open>subprocess.run\<close> did (returned
  or raised, the timeout included) and what the glob for the subtitle file finds
  afterwards, each file with what \<open>read_text\<close> gives. The return code is printed and
  never tested.
\<close>

definition run_command ::
  "(exn + proc) \<Rightarrow> (string \<times> (exn + string)) list \<Rightarrow> string \<Rightarrow> run_result" where
  "run_command run vtt_files strategy =
     (case run of
        Inl e \<Rightarrow> RunError strategy (exn_str e)
      | Inr result \<Rightarrow>
          (case vtt_files of
             (vtt_file, read_text) # rest \<Rightarrow>
               (case read_text of
                  Inl e \<Rightarrow> RunError strategy (exn_str e)
                | Inr content \<Rightarrow>
                    (let clean_text = clean_vtt content
                     in RunSuccess strategy vtt_file clean_text (length clean_text)
                          (stdout result) (stderr result)))
           | [] \<Rightarrow>
               RunFailed strategy ''No VTT file created'' (stdout result) (stderr result)
                 (py_in ''429'' (stderr result))))"

section \<open>What a script does, in order\<close>

text \<open>
  The effects of a script that matter here: a \<open>time.sleep\<close> with its seconds, a call of
  an external service or tool under a name, and a file written with its content.
  Printing is left out, and writing a file is taken to succeed.
\<close>

datatype event =
    Sleep nat
  | Call string
  | WriteFile string string

fun sleeps_of :: "event list \<Rightarrow> nat list" where
  "sleeps_of [] = []"
| "sleeps_of (Sleep n # es) = n # sleeps_of es"
| "sleeps_of (e # es) = sleeps_of es"

fun calls_of :: "event list \<Rightarrow> string list" where
  "calls_of [] = []"
| "calls_of (Call c # es) = c # calls_of es"
| "calls_of (e # es) = calls_of es"

fun writes_of :: "event list \<Rightarrow> (string \<times> string) list" where
  "writes_of [] = []"
| "writes_of (WriteFile f t # es) = (f, t) # writes_of es"
| "writes_of (e # es) = writes_of es"

text \<open>
  The loop of \<open>main\<close> in test_ytdlp_advanced.py: every strategy is run, whatever the
  earlier ones returned, and each is followed by \<open>time.sleep(2)\<close>.
\<close>

fun main_loop :: "(string \<times> run_result) list \<Rightarrow> event list" where
  "main_loop [] = []"
| "main_loop ((name, result) # strategies) = Call name # Sleep 2 # main_loop strategies"

section \<open>The transcript scripts (test-youtube-fix.py, test-youtube-transcript-debug.py)\<close>

text \<open>
  A fetched transcript is the list of its entries, each given by its \<open>'text'\<close>. One item
  of \<open>list_transcripts\<close> carries its language and what \<open>fetch()\<close> does.
\<close>

record transcript =
  language :: string
  language_code :: string
  is_generated :: bool
  fetch :: "exn + string list"

text \<open>What the transcript service answers during one run of test-youtube-fix.py.\<close>

record youtube =
  get_transcript :: "exn + string list"
  format_transcript :: "string list \<Rightarrow> string"
  list_transcripts :: "exn + transcript list"

definition fetch_name :: "transcript \<Rightarrow> string" where
  "fetch_name t = ''fetch '' @ language_code t"

definition saved_as :: "transcript \<Rightarrow> string" where
  "saved_as t = ''transcript-'' @ language_code t @ ''.txt''"

text \<open>
  Strategy 2 of test-youtube-fix.py, the loop over the listed transcripts: one second of
  sleep, the fetch, and the text is saved and the loop left only if it has more than 500
  characters; an exception of the fetch is printed and the loop goes on.
\<close>

fun transcript_loop :: "transcript list \<Rightarrow> event list" where
  "transcript_loop [] = []"
| "transcript_loop (t # ts) =
     Sleep 1 # Call (fetch_name t) #
     (case fetch t of
        Inl e \<Rightarrow> transcript_loop ts
      | Inr entries \<Rightarrow>
          (let full_text = join_sp entries
           in if length full_text > 500 then [WriteFile (saved_as t) full_text]
              else transcript_loop ts))"

text \<open>The whole of test-youtube-fix.py: strategy 1, then strategy 2 in every case.\<close>

definition fix_script :: "youtube \<Rightarrow> event list" where
  "fix_script yt =
     [Sleep 2, Call ''get_transcript'']
     @ (case get_transcript yt of
          Inl e \<Rightarrow> []
        | Inr entries \<Rightarrow> [WriteFile ''transcript-fixed.txt'' (format_transcript yt entries)])
     @ [Sleep 2, Call ''list_transcripts'']
     @ (case list_transcripts yt of
          Inl e \<Rightarrow> []
        | Inr ts \<Rightarrow> transcript_loop ts)"

text \<open>\<open>strategy_name.replace(" ", "-")\<close>\<close>

definition dashed :: "string \<Rightarrow> string" where
  "dashed s = map (\<lambda>c. if c = CHR '' '' then CHR ''-'' else c) s"

text \<open>
  The strategies loop of test-youtube-transcript-debug.py: each strategy is a name and
  what its call does; the first one that returns is saved and ends the loop, one that
  raises is printed and the next is tried.
\<close>

fun strategies_loop :: "(string \<times> (exn + string list)) list \<Rightarrow> event list" where
  "strategies_loop [] = []"
| "strategies_loop ((strategy_name, strategy_func) # strategies) =
     Call strategy_name #
     (case strategy_func of
        Inl e \<Rightarrow> strategies_loop strategies
      | Inr entries \<Rightarrow>
          [WriteFile (''transcript-'' @ dashed strategy_name @ ''.txt'') (join_sp entries)])"

text \<open>
  The check printed as "Likely valid" by test-youtube-real.py:
  \<open>len(full_text) > 1000 and '[Sobre]' not in full_text[:1000]\<close>
\<close>

definition likely_valid :: "string \<Rightarrow> bool" where
  "likely_valid full_text =
     (length full_text > 1000 \<and> \<not> py_in ''[Sobre]'' (take 1000 full_text))"

text \<open>The outcome of one transcript of the loop: its text was fetched and is long enough.\<close>

definition accepted :: "transcript \<Rightarrow> bool" where
  "accepted t = (case fetch t of Inl e \<Rightarrow> False | Inr entries \<Rightarrow> length (join_sp entries) > 500)"

text \<open>The outcome of one strategy of the debug loop: its call returned.\<close>

definition returned :: "string \<times> (exn + string list) \<Rightarrow> bool" where
  "returned s = (case snd s of Inl e \<Rightarrow> False | Inr entries \<Rightarrow> True)"

section \<open>The REST server: what each request gets\<close>

text \<open>
  In the theorems on \<open>POST /convert\<close> the uploaded bytes are the content of the
  multipart field \<open>file\<close> when the form has one and the raw body otherwise, as the handler
  reads them.
\<close>

text \<open>
  C6. A \<open>POST /convert\<close> request that supplies a file, in the multipart field \<open>file\<close> or
  as a raw body, and whose conversion succeeds, is answered with status 200 and a JSON
  body of two fields: \<open>markdown\<close>, the converted text, which is the \<open>text_content\<close> of
  what the converter returned, or its \<open>str\<close> when it has no such attribute; and
  \<open>metadata\<close>, which holds \<open>filename\<close> (the name of the upload, the header \<open>X-Filename\<close> of
  a raw body, or "document"), \<open>size_bytes\<close> equal to the number of uploaded bytes,
  \<open>markdown_length\<close> equal to the length of the markdown text, and \<open>title\<close> exactly when
  the converter reports a non-empty one. The converter is called once, on the uploaded
  bytes.
\<close>

theorem convert_success:
  assumes "req_files req ''file'' \<noteq> None \<or> req_data req \<noteq> []"
    and "file_content =
           (case req_files req ''file'' of Some file \<Rightarrow> up_content file | None \<Rightarrow> req_data req)"
    and "convert_stream md_converter file_content = Inr result"
    and "markdown_text =
           (case text_content result of Some t \<Rightarrow> t | None \<Rightarrow> str_repr result)"
    and "filename =
           (case req_files req ''file'' of
              Some file \<Rightarrow>
                (case up_filename file of
                   Some n \<Rightarrow> (if n = [] then ''document'' else n)
                 | None \<Rightarrow> ''document'')
            | None \<Rightarrow>
                (case req_headers req ''X-Filename'' of
                   Some n \<Rightarrow> n
                 | None \<Rightarrow> ''document''))"
  shows "convert_to_markdown md_converter req =
           \<lparr>resp =
              \<lparr>status = 200,
               body = JObj [(''markdown'', JStr markdown_text),
                            (''metadata'',
                             JObj ([(''filename'', JStr filename),
                                    (''size_bytes'', JNum (int (length file_content))),
                                    (''markdown_length'', JNum (int (length markdown_text)))]
                                   @ (case title result of
                                        Some t \<Rightarrow> (if t = [] then [] else [(''title'', JStr t)])
                                      | None \<Rightarrow> [])))]\<rparr>,
            calls = [file_content]\<rparr>"
proof (cases "req_files req ''file''")
  case None
  then have "req_data req \<noteq> []" using assms(1) by simp
  then have "get_file req = Some (filename, file_content)"
    using None assms(2,5) by (simp add: get_file_def)
  then show ?thesis
    using assms(3,4)
    by (simp add: convert_to_markdown_def title_entry_def markdown_of_def Let_def
          split: option.split)
next
  case (Some part)
  then have "get_file req = Some (filename, file_content)"
    using assms(2,5) by (simp add: get_file_def split: option.split)
  then show ?thesis
    using assms(3,4)
    by (simp add: convert_to_markdown_def title_entry_def markdown_of_def Let_def
          split: option.split)
qed

text \<open>
  A raw body of three bytes sent with the header \<open>X-Filename\<close>, converted to a text of
  four characters with a title.
\<close>

theorem convert_success_witness:
  "convert_to_markdown
     \<lparr>convert_stream = (\<lambda>b. Inr \<lparr>text_content = Some ''# Hi'', str_repr = ''r'',
                                  title = Some ''T''\<rparr>),
      convert = (\<lambda>u. Inl (raise_exn ''E'' ''m''))\<rparr>
     \<lparr>req_files = Map.empty, req_data = ''abc'', req_headers = [''X-Filename'' \<mapsto> ''a.txt''],
      req_get_json = Inr JNull\<rparr> =
   \<lparr>resp =
      \<lparr>status = 200,
       body = JObj [(''markdown'', JStr ''# Hi''),
                    (''metadata'',
                     JObj [(''filename'', JStr ''a.txt''),
                           (''size_bytes'', JNum 3),
                           (''markdown_length'', JNum 4),
                           (''title'', JStr ''T'')])]\<rparr>,
    calls = [''abc'']\<rparr>"
  using convert_success
    [of "\<lparr>req_files = Map.empty, req_data = ''abc'',
          req_headers = [''X-Filename'' \<mapsto> ''a.txt''], req_get_json = Inr JNull\<rparr>"
        "''abc''"
        "\<lparr>convert_stream = (\<lambda>b. Inr \<lparr>text_content = Some ''# Hi'', str_repr = ''r'',
                                     title = Some ''T''\<rparr>),
          convert = (\<lambda>u. Inl (raise_exn ''E'' ''m''))\<rparr>"
        "\<lparr>text_content = Some ''# Hi'', str_repr = ''r'', title = Some ''T''\<rparr>"
        "''# Hi''" "''a.txt''"]
  by simp

text \<open>
  C7. A \<open>POST /convert\<close> request with neither a multipart field \<open>file\<close> nor a non-empty raw
  body is answered with status 400 and a JSON body whose \<open>error\<close> is "No file provided",
  and the converter is not called.
\<close>

theorem convert_missing_file:
  assumes "req_files req ''file'' = None" and "req_data req = []"
  shows "convert_to_markdown md_converter req =
           \<lparr>resp = \<lparr>status = 400,
                     body = JObj [(''error'', JStr ''No file provided''),
                                  (''message'',
                                   JStr ''Send file via multipart/form-data or raw body'')]\<rparr>,
            calls = []\<rparr>"
  using assms by (simp add: convert_to_markdown_def get_file_def)

text \<open>The empty request of \<open>test_convert_missing_file\<close>, with a converter that would succeed.\<close>

theorem convert_missing_file_witness:
  "convert_to_markdown
     \<lparr>convert_stream = (\<lambda>b. Inr \<lparr>text_content = Some ''x'', str_repr = ''r'', title = None\<rparr>),
      convert = (\<lambda>u. Inl (raise_exn ''E'' ''m''))\<rparr>
     \<lparr>req_files = Map.empty, req_data = [], req_headers = Map.empty,
      req_get_json = Inr JNull\<rparr> =
   \<lparr>resp = \<lparr>status = 400,
             body = JObj [(''error'', JStr ''No file provided''),
                          (''message'',
                           JStr ''Send file via multipart/form-data or raw body'')]\<rparr>,
    calls = []\<rparr>"
  using convert_missing_file
    [of "\<lparr>req_files = Map.empty, req_data = [], req_headers = Map.empty,
          req_get_json = Inr JNull\<rparr>"]
  by simp

text \<open>
  C8. When the conversion of a \<open>POST /convert\<close> request raises, the converter has been
  called exactly once, on the uploaded bytes, and the answer is status 500 with the JSON
  body of \<open>error\<close> "Conversion failed", \<open>message\<close> the text of the exception and \<open>type\<close>
  the name of its class.
\<close>

theorem convert_failure:
  assumes "req_files req ''file'' \<noteq> None \<or> req_data req \<noteq> []"
    and "convert_stream md_converter
           (case req_files req ''file'' of Some file \<Rightarrow> up_content file | None \<Rightarrow> req_data req)
         = Inl e"
  shows "convert_to_markdown md_converter req =
           \<lparr>resp = \<lparr>status = 500,
                     body = JObj [(''error'', JStr ''Conversion failed''),
                                  (''message'', JStr (exn_str e)),
                                  (''type'', JStr (exn_type e))]\<rparr>,
            calls = [case req_files req ''file'' of
                       Some file \<Rightarrow> up_content file
                     | None \<Rightarrow> req_data req]\<rparr>"
  using assms
  by (auto simp: convert_to_markdown_def get_file_def error_body_def split: option.splits)

text \<open>A multipart upload whose conversion raises a ValueError.\<close>

theorem convert_failure_witness:
  "convert_to_markdown
     \<lparr>convert_stream = (\<lambda>b. Inl \<lparr>exn_type = ''ValueError'', exn_str = ''bad file''\<rparr>),
      convert = (\<lambda>u. Inl \<lparr>exn_type = ''ValueError'', exn_str = ''bad file''\<rparr>)\<rparr>
     \<lparr>req_files = [''file'' \<mapsto> \<lparr>up_filename = Some ''a.pdf'', up_content = ''%PDF''\<rparr>],
      req_data = [], req_headers = Map.empty, req_get_json = Inr JNull\<rparr> =
   \<lparr>resp = \<lparr>status = 500,
             body = JObj [(''error'', JStr ''Conversion failed''),
                          (''message'', JStr ''bad file''),
                          (''type'', JStr ''ValueError'')]\<rparr>,
    calls = [''%PDF'']\<rparr>"
  using convert_failure
    [of "\<lparr>req_files = [''file'' \<mapsto> \<lparr>up_filename = Some ''a.pdf'', up_content = ''%PDF''\<rparr>],
          req_data = [], req_headers = Map.empty, req_get_json = Inr JNull\<rparr>"
        "\<lparr>convert_stream = (\<lambda>b. Inl \<lparr>exn_type = ''ValueError'', exn_str = ''bad file''\<rparr>),
          convert = (\<lambda>u. Inl \<lparr>exn_type = ''ValueError'', exn_str = ''bad file''\<rparr>)\<rparr>"
        "\<lparr>exn_type = ''ValueError'', exn_str = ''bad file''\<rparr>"]
  by simp

text \<open>
  C10. When the body of a \<open>POST /convert/url\<close> request cannot be parsed as JSON, so that
  \<open>request.get_json()\<close> raises (a missing or wrong content type included), the answer is
  status 500 with \<open>error\<close> "URL conversion failed" and the exception's text and class,
  not the 400 of a missing field, and nothing is converted.
\<close>

theorem convert_url_unparseable:
  assumes "req_get_json req = Inl e"
  shows "convert_url_to_markdown md_converter req =
           \<lparr>resp = \<lparr>status = 500,
                     body = JObj [(''error'', JStr ''URL conversion failed''),
                                  (''message'', JStr (exn_str e)),
                                  (''type'', JStr (exn_type e))]\<rparr>,
            calls = []\<rparr>
         \<and> status (resp (convert_url_to_markdown md_converter req)) \<noteq> 400"
  using assms by (simp add: convert_url_to_markdown_def url_failed_def error_body_def)

text \<open>A body that is not JSON, for which the framework raises BadRequest.\<close>

theorem convert_url_unparseable_witness:
  "convert_url_to_markdown
     \<lparr>convert_stream = (\<lambda>b. Inl \<lparr>exn_type = ''E'', exn_str = ''m''\<rparr>),
      convert = (\<lambda>u. Inr \<lparr>text_content = Some ''x'', str_repr = ''r'', title = None\<rparr>)\<rparr>
     \<lparr>req_files = Map.empty, req_data = ''{oops'', req_headers = Map.empty,
      req_get_json = Inl \<lparr>exn_type = ''BadRequest'', exn_str = ''400 Bad Request''\<rparr>\<rparr> =
   \<lparr>resp = \<lparr>status = 500,
             body = JObj [(''error'', JStr ''URL conversion failed''),
                          (''message'', JStr ''400 Bad Request''),
                          (''type'', JStr ''BadRequest'')]\<rparr>,
    calls = []\<rparr>"
  using convert_url_unparseable
    [of "\<lparr>req_files = Map.empty, req_data = ''{oops'', req_headers = Map.empty,
          req_get_json = Inl \<lparr>exn_type = ''BadRequest'', exn_str = ''400 Bad Request''\<rparr>\<rparr>"
        "\<lparr>exn_type = ''BadRequest'', exn_str = ''400 Bad Request''\<rparr>"]
  by simp

section \<open>Strings: what the tests mean\<close>

lemma startswith_iff: "startswith s p \<longleftrightarrow> (\<exists>suf. s = p @ suf)"
  by (induction s p rule: startswith.induct) auto

text \<open>\<open>py_in\<close> is the substring test: some text before, the pattern, some text after.\<close>

lemma py_in_iff: "py_in sub s \<longleftrightarrow> (\<exists>pre suf. s = pre @ sub @ suf)"
proof (induction s)
  case Nil
  then show ?case by auto
next
  case (Cons c cs)
  show ?case
  proof
    assume "py_in sub (c # cs)"
    then consider "startswith (c # cs) sub" | "py_in sub cs" by auto
    then show "\<exists>pre suf. c # cs = pre @ sub @ suf"
    proof cases
      case 1
      then obtain suf where "c # cs = sub @ suf" by (auto simp: startswith_iff)
      then have "c # cs = [] @ sub @ suf" by simp
      then show ?thesis by blast
    next
      case 2
      then obtain pre suf where "cs = pre @ sub @ suf" using Cons.IH by auto
      then have "c # cs = (c # pre) @ sub @ suf" by simp
      then show ?thesis by blast
    qed
  next
    assume "\<exists>pre suf. c # cs = pre @ sub @ suf"
    then obtain pre suf where eq: "c # cs = pre @ sub @ suf" by auto
    show "py_in sub (c # cs)"
    proof (cases pre)
      case Nil
      then have "startswith (c # cs) sub" using eq by (auto simp: startswith_iff)
      then show ?thesis by simp
    next
      case (Cons a pre')
      then have "cs = pre' @ sub @ suf" using eq by simp
      then have "py_in sub cs" using Cons.IH by blast
      then show ?thesis by simp
    qed
  qed
qed

text \<open>
  The arrow has no space in it, so an arrow in two texts joined by a space lies in one of
  the two.
\<close>

lemma startswith_arrow_sp:
  "startswith (a @ CHR '' '' # b) ''-->'' = startswith a ''-->''"
proof (cases a)
  case Nil
  then show ?thesis by simp
next
  case (Cons c1 a1)
  show ?thesis
  proof (cases a1)
    case Nil
    then show ?thesis using Cons by simp
  next
    case (Cons c2 a2)
    then show ?thesis using \<open>a = c1 # a1\<close> by (cases a2) simp_all
  qed
qed

lemma py_in_arrow_sp:
  "py_in ''-->'' (a @ CHR '' '' # b) = (py_in ''-->'' a \<or> py_in ''-->'' b)"
proof (induction a)
  case Nil
  then show ?case by simp
next
  case (Cons c cs)
  have "startswith ((c # cs) @ CHR '' '' # b) ''-->'' = startswith (c # cs) ''-->''"
    by (rule startswith_arrow_sp)
  then show ?case using Cons by auto
qed

lemma py_in_arrow_join:
  "py_in ''-->'' (join_sp ls) = (\<exists>l \<in> set ls. py_in ''-->'' l)"
proof (induction ls rule: join_sp.induct)
  case 1
  then show ?case by simp
next
  case (2 x)
  then show ?case by simp
next
  case (3 x y zs)
  have "py_in ''-->'' (join_sp (x # y # zs)) =
          (py_in ''-->'' x \<or> py_in ''-->'' (join_sp (y # zs)))"
    by (simp only: join_sp.simps py_in_arrow_sp)
  then show ?case using 3 by auto
qed

section \<open>The subtitle text\<close>

text \<open>
  C5. The candidate text of a subtitle file is what is left of its lines once the timing
  and index lines are gone: every empty line, every line with the timing arrow \<open>-->\<close>,
  every line that is a number once stripped of surrounding blanks, and for the VTT format
  every line that starts with the header \<open>WEBVTT\<close>, is removed (the SRT format has no
  header line, and its filter has no such test); the lines that remain are joined, in
  order, with one space between two. No timing arrow is left in the text.
\<close>

theorem clean_subtitles:
  "clean_vtt content =
     join_sp (filter (\<lambda>line. \<not> (line = [] \<or> startswith line ''WEBVTT'' \<or> py_in ''-->'' line
                                  \<or> isdigit (strip line)))
                (split_on CHR 0x0A content))
   \<and> clean_srt content =
     join_sp (filter (\<lambda>line. \<not> (line = [] \<or> py_in ''-->'' line \<or> isdigit (strip line)))
                (split_on CHR 0x0A content))
   \<and> \<not> py_in ''-->'' (clean_vtt content)
   \<and> \<not> py_in ''-->'' (clean_srt content)"
proof -
  have kv: "keep_vtt = (\<lambda>line. \<not> (line = [] \<or> startswith line ''WEBVTT'' \<or> py_in ''-->'' line
                                  \<or> isdigit (strip line)))"
    by (rule ext) (simp add: keep_vtt_def)
  have ks: "keep_srt = (\<lambda>line. \<not> (line = [] \<or> py_in ''-->'' line \<or> isdigit (strip line)))"
    by (rule ext) (auto simp add: keep_srt_def)
  have a: "\<not> py_in ''-->'' (clean_vtt content)"
    unfolding clean_vtt_def py_in_arrow_join by (simp add: keep_vtt_def)
  have b: "\<not> py_in ''-->'' (clean_srt content)"
    unfolding clean_srt_def py_in_arrow_join by (simp add: keep_srt_def)
  show ?thesis using a b by (simp add: clean_vtt_def clean_srt_def kv ks)
qed

text \<open>
  A small VTT file: header, blank line, index, timing line, two lines of speech with an
  index between blanks in the middle.
\<close>

theorem clean_subtitles_witness:
  "clean_vtt (''WEBVTT'' @ [CHR 0x0A, CHR 0x0A] @ ''1'' @ [CHR 0x0A] @ ''00:01 --> 00:02''
              @ [CHR 0x0A] @ ''hello'' @ [CHR 0x0A] @ '' 12 '' @ [CHR 0x0A] @ ''world'')
     = ''hello world''
   \<and> clean_srt (''1'' @ [CHR 0x0A] @ ''00:01 --> 00:02'' @ [CHR 0x0A] @ ''hello''
                @ [CHR 0x0A, CHR 0x0A] @ ''2'' @ [CHR 0x0A] @ ''00:02 --> 00:03''
                @ [CHR 0x0A] @ ''world'' @ [CHR 0x0A])
     = ''hello world''"
  using clean_subtitles
    [of "''WEBVTT'' @ [CHR 0x0A, CHR 0x0A] @ ''1'' @ [CHR 0x0A] @ ''00:01 --> 00:02''
         @ [CHR 0x0A] @ ''hello'' @ [CHR 0x0A] @ '' 12 '' @ [CHR 0x0A] @ ''world''"]
    clean_subtitles
    [of "''1'' @ [CHR 0x0A] @ ''00:01 --> 00:02'' @ [CHR 0x0A] @ ''hello''
         @ [CHR 0x0A, CHR 0x0A] @ ''2'' @ [CHR 0x0A] @ ''00:02 --> 00:03''
         @ [CHR 0x0A] @ ''world'' @ [CHR 0x0A]"]
  by (simp add: strip_def isdigit_def isspace_char_def isdigit_char_def)

section \<open>The external tool: how an attempt is classified\<close>

text \<open>
  C2, as the claim states it, fails: the exit code of the tool plays no part. Here the
  tool exits with code 1 and writes the rate-limit marker to its error output, the
  subtitle file is there (left by an earlier run, or written before the failure), and the
  attempt is a success, neither rate-limited nor failed.
\<close>

theorem nonzero_exit_counterexample:
  "run_command (Inr \<lparr>returncode = 1, stdout = [], stderr = ''ERROR: HTTP Error 429''\<rparr>)
     [(''dQw4w9WgXcQ_basic.en.vtt'', Inr (''WEBVTT'' @ [CHR 0x0A] @ ''hello''))] ''basic''
   = RunSuccess ''basic'' ''dQw4w9WgXcQ_basic.en.vtt'' ''hello'' 5 [] ''ERROR: HTTP Error 429''"
  by (simp add: run_command_def clean_vtt_def keep_vtt_def strip_def isdigit_def
        isspace_char_def isdigit_char_def Let_def)

text \<open>
  C2, amended. What decides is what the glob for the strategy's subtitle file finds once
  the tool has run; the exit code is never tested. When the glob finds nothing, whatever
  the exit code, the attempt fails with "No VTT file created" and is marked rate-limited
  exactly when the error output of the process contains "429". When the glob finds a file
  and the first one found can be read, the attempt is a success with the cleaned text of
  that file, whatever the exit code and the error output. When the first file found
  cannot be read, or the call of the tool itself raises (its timeout included), the
  attempt is an error that is neither a success nor marked rate-limited.
\<close>

theorem run_command_classification:
  "run_command (Inr result) [] strategy =
     RunFailed strategy ''No VTT file created'' (stdout result) (stderr result)
       (py_in ''429'' (stderr result))
   \<and> (rate_limited (run_command (Inr result) [] strategy)
        \<longleftrightarrow> (\<exists>pre suf. stderr result = pre @ ''429'' @ suf))
   \<and> \<not> success (run_command (Inr result) [] strategy)
   \<and> success (run_command (Inr result) ((vtt_file, Inr content) # rest) strategy)
   \<and> \<not> rate_limited (run_command (Inr result) ((vtt_file, Inr content) # rest) strategy)
   \<and> run_command (Inr result) ((vtt_file, Inr content) # rest) strategy =
       RunSuccess strategy vtt_file (clean_vtt content) (length (clean_vtt content))
         (stdout result) (stderr result)
   \<and> run_command (Inr result) ((vtt_file, Inl e) # rest) strategy = RunError strategy (exn_str e)
   \<and> run_command (Inl e) vtt_files strategy = RunError strategy (exn_str e)
   \<and> \<not> success (RunError strategy (exn_str e))
   \<and> \<not> rate_limited (RunError strategy (exn_str e))"
  by (simp add: run_command_def Let_def py_in_iff)

section \<open>The transcript loops\<close>

lemma transcript_loop_calls:
  "calls_of (transcript_loop ts) =
     map fetch_name
       (takeWhile (\<lambda>t. \<not> accepted t) ts @ take 1 (dropWhile (\<lambda>t. \<not> accepted t) ts))"
  by (induction ts) (auto simp: accepted_def Let_def split: sum.splits)

lemma transcript_loop_writes:
  "writes_of (transcript_loop ts) =
     map (\<lambda>t. (saved_as t, case fetch t of Inl e \<Rightarrow> [] | Inr entries \<Rightarrow> join_sp entries))
       (take 1 (dropWhile (\<lambda>t. \<not> accepted t) ts))"
  by (induction ts) (auto simp: accepted_def Let_def split: sum.splits)

lemma transcript_loop_sleeps:
  "sleeps_of (transcript_loop ts) = replicate (length (calls_of (transcript_loop ts))) 1"
  by (induction ts) (auto simp: Let_def split: sum.splits)

lemma strategies_loop_calls:
  "calls_of (strategies_loop ss) =
     map fst (takeWhile (\<lambda>s. \<not> returned s) ss @ take 1 (dropWhile (\<lambda>s. \<not> returned s) ss))"
  by (induction ss rule: strategies_loop.induct) (auto simp: returned_def split: sum.splits)

lemma strategies_loop_writes:
  "writes_of (strategies_loop ss) =
     map (\<lambda>s. (''transcript-'' @ dashed (fst s) @ ''.txt'',
               case snd s of Inl e \<Rightarrow> [] | Inr entries \<Rightarrow> join_sp entries))
       (take 1 (dropWhile (\<lambda>s. \<not> returned s) ss))"
  by (induction ss rule: strategies_loop.induct) (auto simp: returned_def split: sum.splits)

lemma main_loop_sleeps: "sleeps_of (main_loop rs) = replicate (length rs) 2"
  by (induction rs rule: main_loop.induct) auto

lemma sleeps_of_append: "sleeps_of (xs @ ys) = sleeps_of xs @ sleeps_of ys"
  by (induction xs rule: sleeps_of.induct) auto

lemma calls_of_append: "calls_of (xs @ ys) = calls_of xs @ calls_of ys"
  by (induction xs rule: calls_of.induct) auto

lemma main_loop_calls: "calls_of (main_loop rs) = map fst rs"
  by (induction rs rule: main_loop.induct) auto

lemma fix_script_calls:
  "calls_of (fix_script yt) =
     ''get_transcript'' # ''list_transcripts'' #
     (case list_transcripts yt of Inl e \<Rightarrow> [] | Inr ts \<Rightarrow> calls_of (transcript_loop ts))"
  by (auto simp: fix_script_def calls_of_append split: sum.splits)

text \<open>
  C1, as the claim states it, fails: it holds of one loop, not of a whole request. In
  test-youtube-fix.py the first strategy succeeds and saves its transcript, and the
  second strategy is run all the same, lists the transcripts, fetches one and saves a
  second result.
\<close>

theorem second_result_counterexample:
  "calls_of (fix_script
     \<lparr>get_transcript = Inr [''hello''], format_transcript = join_sp,
      list_transcripts =
        Inr [\<lparr>language = ''English'', language_code = ''en'', is_generated = True,
              fetch = Inr [replicate 501 CHR ''a'']\<rparr>]\<rparr>)
     = [''get_transcript'', ''list_transcripts'', ''fetch en'']
   \<and> writes_of (fix_script
     \<lparr>get_transcript = Inr [''hello''], format_transcript = join_sp,
      list_transcripts =
        Inr [\<lparr>language = ''English'', language_code = ''en'', is_generated = True,
              fetch = Inr [replicate 501 CHR ''a'']\<rparr>]\<rparr>)
     = [(''transcript-fixed.txt'', ''hello''),
        (''transcript-en.txt'', replicate 501 CHR ''a'')]"
  by (simp add: fix_script_def fetch_name_def saved_as_def)

text \<open>
  C1, amended. Within one strategy loop the candidates are tried in order and the search
  stops at the first one that is accepted: the calls made are those of the candidates
  before the first accepted one and of that one, none after it; what is saved is the
  text of that one alone, so at most one result comes out of the loop. In the loop of
  test-youtube-fix.py a candidate is accepted when its fetch returns and the text passes
  the length check; in the loop of test-youtube-transcript-debug.py, which checks
  nothing, when its call returns. Outside these loops nothing stops at a success: the
  script test-youtube-fix.py runs its second strategy whatever the first one did, and
  \<open>main\<close> of test_ytdlp_advanced.py runs every strategy of its list.
\<close>

theorem first_success_only:
  "calls_of (transcript_loop ts) =
     map fetch_name
       (takeWhile (\<lambda>t. \<not> accepted t) ts @ take 1 (dropWhile (\<lambda>t. \<not> accepted t) ts))
   \<and> writes_of (transcript_loop ts) =
     map (\<lambda>t. (saved_as t, case fetch t of Inl e \<Rightarrow> [] | Inr entries \<Rightarrow> join_sp entries))
       (take 1 (dropWhile (\<lambda>t. \<not> accepted t) ts))
   \<and> length (writes_of (transcript_loop ts)) \<le> 1
   \<and> calls_of (strategies_loop ss) =
     map fst (takeWhile (\<lambda>s. \<not> returned s) ss @ take 1 (dropWhile (\<lambda>s. \<not> returned s) ss))
   \<and> writes_of (strategies_loop ss) =
     map (\<lambda>s. (''transcript-'' @ dashed (fst s) @ ''.txt'',
               case snd s of Inl e \<Rightarrow> [] | Inr entries \<Rightarrow> join_sp entries))
       (take 1 (dropWhile (\<lambda>s. \<not> returned s) ss))
   \<and> length (writes_of (strategies_loop ss)) \<le> 1
   \<and> calls_of (fix_script yt) =
     ''get_transcript'' # ''list_transcripts'' #
     (case list_transcripts yt of Inl e \<Rightarrow> [] | Inr ts' \<Rightarrow> calls_of (transcript_loop ts'))
   \<and> calls_of (main_loop rs) = map fst rs"
proof -
  have "length (writes_of (transcript_loop ts)) \<le> 1"
    by (simp add: transcript_loop_writes)
  moreover have "length (writes_of (strategies_loop ss)) \<le> 1"
    by (simp add: strategies_loop_writes)
  ultimately show ?thesis
    using transcript_loop_calls [of ts] transcript_loop_writes [of ts]
      strategies_loop_calls [of ss] strategies_loop_writes [of ss]
      fix_script_calls [of yt] main_loop_calls [of rs]
    by blast
qed

text \<open>
  The three strategies of the debug script when the first raises and the second returns:
  the third is not called and one file is written. In the other loop a transcript whose
  fetch raises and one that is too short are passed over, the third is saved, the fourth
  is not fetched.
\<close>

theorem first_success_only_witness:
  "calls_of (strategies_loop
     [(''Auto (any language)'', Inl \<lparr>exn_type = ''NoTranscriptFound'', exn_str = ''none''\<rparr>),
      (''Portuguese'', Inr [''ola'', ''mundo'']),
      (''English'', Inr [''hello'', ''world''])])
     = [''Auto (any language)'', ''Portuguese'']
   \<and> writes_of (strategies_loop
     [(''Auto (any language)'', Inl \<lparr>exn_type = ''NoTranscriptFound'', exn_str = ''none''\<rparr>),
      (''Portuguese'', Inr [''ola'', ''mundo'']),
      (''English'', Inr [''hello'', ''world''])])
     = [(''transcript-Portuguese.txt'', ''ola mundo'')]
   \<and> calls_of (transcript_loop
     [\<lparr>language = ''German'', language_code = ''de'', is_generated = False,
       fetch = Inl \<lparr>exn_type = ''YouTubeRequestFailed'', exn_str = ''429''\<rparr>\<rparr>,
      \<lparr>language = ''English'', language_code = ''en'', is_generated = True,
       fetch = Inr [''too'', ''short'']\<rparr>,
      \<lparr>language = ''Portuguese'', language_code = ''pt'', is_generated = False,
       fetch = Inr [replicate 250 CHR ''a'', replicate 250 CHR ''b'']\<rparr>,
      \<lparr>language = ''French'', language_code = ''fr'', is_generated = False,
       fetch = Inr [replicate 600 CHR ''c'']\<rparr>])
     = [''fetch de'', ''fetch en'', ''fetch pt'']
   \<and> writes_of (transcript_loop
     [\<lparr>language = ''German'', language_code = ''de'', is_generated = False,
       fetch = Inl \<lparr>exn_type = ''YouTubeRequestFailed'', exn_str = ''429''\<rparr>\<rparr>,
      \<lparr>language = ''English'', language_code = ''en'', is_generated = True,
       fetch = Inr [''too'', ''short'']\<rparr>,
      \<lparr>language = ''Portuguese'', language_code = ''pt'', is_generated = False,
       fetch = Inr [replicate 250 CHR ''a'', replicate 250 CHR ''b'']\<rparr>,
      \<lparr>language = ''French'', language_code = ''fr'', is_generated = False,
       fetch = Inr [replicate 600 CHR ''c'']\<rparr>])
     = [(''transcript-pt.txt'', replicate 250 CHR ''a'' @ CHR '' '' # replicate 250 CHR ''b'')]"
  using first_success_only
    [of "[\<lparr>language = ''German'', language_code = ''de'', is_generated = False,
           fetch = Inl \<lparr>exn_type = ''YouTubeRequestFailed'', exn_str = ''429''\<rparr>\<rparr>,
          \<lparr>language = ''English'', language_code = ''en'', is_generated = True,
           fetch = Inr [''too'', ''short'']\<rparr>,
          \<lparr>language = ''Portuguese'', language_code = ''pt'', is_generated = False,
           fetch = Inr [replicate 250 CHR ''a'', replicate 250 CHR ''b'']\<rparr>,
          \<lparr>language = ''French'', language_code = ''fr'', is_generated = False,
           fetch = Inr [replicate 600 CHR ''c'']\<rparr>]"
        "[(''Auto (any language)'',
           Inl \<lparr>exn_type = ''NoTranscriptFound'', exn_str = ''none''\<rparr>),
          (''Portuguese'', Inr [''ola'', ''mundo'']),
          (''English'', Inr [''hello'', ''world''])]"]
  by (simp add: accepted_def returned_def fetch_name_def saved_as_def dashed_def)

text \<open>
  C3, as the claim states it, fails: the threshold of the code is not 200. A fetched text
  of 300 characters, which is not shorter than 200, is rejected: nothing is saved.
\<close>

theorem threshold_200_counterexample:
  "transcript_loop
     [\<lparr>language = ''English'', language_code = ''en'', is_generated = True,
       fetch = Inr [replicate 300 CHR ''a'']\<rparr>] = [Sleep 1, Call ''fetch en'']
   \<and> \<not> length (join_sp [replicate 300 CHR ''a'']) < 200"
  by (simp add: fetch_name_def)

text \<open>
  C3, amended. The loop rejects a fetched text of at most 500 characters, and so every
  text shorter than 200; the length check is the only check of the loop and gives no
  verdict value; after a rejection the loop goes on with the next transcript, and a text
  of more than 500 characters is saved and ends the loop. The check that
  test-youtube-real.py prints never reports a text of at most 1000 characters as valid.
\<close>

theorem short_text_rejected:
  assumes "fetch t = Inr entries"
  shows "(length (join_sp entries) \<le> 500 \<longrightarrow>
            transcript_loop (t # ts) = Sleep 1 # Call (fetch_name t) # transcript_loop ts)
       \<and> (500 < length (join_sp entries) \<longrightarrow>
            transcript_loop (t # ts) =
              [Sleep 1, Call (fetch_name t), WriteFile (saved_as t) (join_sp entries)])
       \<and> (length full_text \<le> 1000 \<longrightarrow> \<not> likely_valid full_text)"
  using assms by (simp add: Let_def likely_valid_def)

text \<open>A text of 300 characters is passed over, the next one of 501 characters is saved.\<close>

theorem short_text_rejected_witness:
  "transcript_loop
     [\<lparr>language = ''English'', language_code = ''en'', is_generated = True,
       fetch = Inr [replicate 300 CHR ''a'']\<rparr>,
      \<lparr>language = ''Portuguese'', language_code = ''pt'', is_generated = False,
       fetch = Inr [replicate 501 CHR ''b'']\<rparr>] =
   [Sleep 1, Call ''fetch en'', Sleep 1, Call ''fetch pt'',
    WriteFile ''transcript-pt.txt'' (replicate 501 CHR ''b'')]
   \<and> \<not> likely_valid (replicate 1000 CHR ''c'')"
  using short_text_rejected
    [of "\<lparr>language = ''English'', language_code = ''en'', is_generated = True,
          fetch = Inr [replicate 300 CHR ''a'']\<rparr>"
        "[replicate 300 CHR ''a'']"
        "[\<lparr>language = ''Portuguese'', language_code = ''pt'', is_generated = False,
           fetch = Inr [replicate 501 CHR ''b'']\<rparr>]"
        "replicate 1000 CHR ''c''"]
    short_text_rejected
    [of "\<lparr>language = ''Portuguese'', language_code = ''pt'', is_generated = False,
          fetch = Inr [replicate 501 CHR ''b'']\<rparr>"
        "[replicate 501 CHR ''b'']" "[]" "[]"]
  by (simp add: fetch_name_def saved_as_def)

section \<open>The delays between requests\<close>

text \<open>
  C4, as the claim states it, fails: no wait is ever reset to zero, and none depends on
  what came back. In test-youtube-fix.py the first strategy succeeds and the next request
  still waits its two seconds; in test_ytdlp_advanced.py two rate-limited attempts, a
  success and an error are each followed by the same two seconds.
\<close>

theorem cooldown_reset_counterexample:
  "fix_script \<lparr>get_transcript = Inr [''hello''], format_transcript = join_sp,
               list_transcripts =
                 Inl \<lparr>exn_type = ''YouTubeRequestFailed'', exn_str = ''429''\<rparr>\<rparr> =
     [Sleep 2, Call ''get_transcript'', WriteFile ''transcript-fixed.txt'' ''hello'',
      Sleep 2, Call ''list_transcripts'']
   \<and> main_loop
       [(''Basic'', RunFailed ''basic'' ''No VTT file created'' [] ''HTTP Error 429'' True),
        (''Web Client'',
         RunFailed ''web_client'' ''No VTT file created'' [] ''HTTP Error 429'' True),
        (''Android'', RunSuccess ''android'' ''v.en.vtt'' ''hello'' 5 [] []),
        (''MediaConnect'', RunError ''mediaconnect'' ''timed out'')] =
     [Call ''Basic'', Sleep 2, Call ''Web Client'', Sleep 2, Call ''Android'', Sleep 2,
      Call ''MediaConnect'', Sleep 2]"
  by (simp add: fix_script_def)

text \<open>
  C4, amended. The wait before a request is a constant of the script, the same whatever
  the earlier outcomes were: test-youtube-fix.py sleeps two seconds before each of its two
  strategies and one second before each fetch, test_ytdlp_advanced.py two seconds after
  each strategy. So the wait never grows over consecutive rate-limited outcomes, is never
  more than two seconds, and is not reset by a success; there is no counter, no jitter
  and no state kept for a host.
\<close>

theorem fixed_delays:
  "sleeps_of (fix_script yt) =
     2 # 2 # (case list_transcripts yt of
                Inl e \<Rightarrow> []
              | Inr ts \<Rightarrow> replicate (length (calls_of (transcript_loop ts))) 1)
   \<and> sleeps_of (main_loop strategies) = replicate (length strategies) 2"
  by (auto simp: fix_script_def sleeps_of_append transcript_loop_sleeps main_loop_sleeps
        split: sum.splits)

section \<open>The URL endpoint: a missing field\<close>

text \<open>
  The two halves of C9 on the bodies the handler is written for: a JSON object without
  the key \<open>url\<close> gets the 400 and nothing is converted, and a conversion that raises gets
  the 500 with the exception's text and class.
\<close>

lemma convert_url_missing_field:
  assumes "req_get_json req = Inr (JObj kvs)" and "''url'' \<notin> fst ` set kvs"
  shows "convert_url_to_markdown md_converter req = no_url"
  using assms by (auto simp: convert_url_to_markdown_def)

lemma convert_url_failure:
  assumes "req_get_json req = Inr (JObj kvs)" and "map_of kvs ''url'' = Some url"
    and "convert md_converter url = Inl e"
  shows "convert_url_to_markdown md_converter req =
           \<lparr>resp = \<lparr>status = 500,
                     body = JObj [(''error'', JStr ''URL conversion failed''),
                                  (''message'', JStr (exn_str e)),
                                  (''type'', JStr (exn_type e))]\<rparr>,
            calls = [url]\<rparr>"
proof -
  have "kvs \<noteq> []" using assms(2) by auto
  moreover have "''url'' \<in> dom (map_of kvs)" using assms(2) by auto
  then have "''url'' \<in> fst ` set kvs" by (simp add: dom_map_of_conv_image_fst)
  ultimately show ?thesis using assms
    by (auto simp: convert_url_to_markdown_def url_failed_def error_body_def)
qed

text \<open>
  C9 on a body the guard misses. The body \<open>5\<close> is valid JSON and has no field \<open>url\<close>; it is
  truthy, so the handler goes on to the test \<open>'url' not in data\<close>, which raises a TypeError
  on a number, and the answer is the 500 of a failed conversion although nothing was
  converted, where the claim and the handler's own 400 branch call for the 400.
\<close>

theorem convert_url_number_body:
  "convert_url_to_markdown md_converter
     \<lparr>req_files = Map.empty, req_data = ''5'', req_headers = Map.empty,
      req_get_json = Inr (JNum 5)\<rparr> =
   \<lparr>resp = \<lparr>status = 500,
             body = JObj [(''error'', JStr ''URL conversion failed''),
                          (''message'',
                           JStr (''argument of type '' @ quoted ''int'' @ '' is not iterable'')),
                          (''type'', JStr ''TypeError'')]\<rparr>,
    calls = []\<rparr>"
  by (simp add: convert_url_to_markdown_def url_failed_def error_body_def raise_exn_def)

end
